theory Spec2Isabelle
  imports Main "HOL-Library.Word"
begin

section \<open>Values exchanged with the container runtime\<close>

text \<open>
  docker-runner keeps one named container running the latest build of an image. The
  program talks to three collaborators that are not part of its sources: the Docker
  daemon (through dockerode), node's \<^verbatim>\<open>crypto\<close> and the \<^verbatim>\<open>request\<close> HTTP client. Their
  behaviour is a parameter of the model; what the program does with their answers is
  translated from the sources.

  A thrown JavaScript value is an \<open>err\<close>: \<open>Error\<close> is an \<^verbatim>\<open>Error\<close> object the program
  builds itself, \<open>RuntimeFailure\<close> a rejection handed back by a collaborator,
  \<open>TypeError\<close> a property read on \<^verbatim>\<open>undefined\<close>.
\<close>

datatype err = Error string | RuntimeFailure string | TypeError string

text \<open>A JavaScript number, as far as the port computation needs it.\<close>

datatype number = Num int | NaN

text \<open>
  The options as the program reads them, once the argument parser has accepted the
  command line. \<^verbatim>\<open>name\<close>, \<^verbatim>\<open>detach\<close> and \<^verbatim>\<open>image\<close> are declared required, so they are
  present here: \<open>detach = False\<close> is an explicit \<^verbatim>\<open>--no-detach\<close>, not a flag left
  out. The optional flag \<^verbatim>\<open>tty\<close> reads as \<open>False\<close> when absent, an optional value as
  \<open>None\<close>. Both variants of the program share the first seven options.
\<close>

record options_common =
  name :: string
  net :: "string option"
  volume :: "string list option"
  detach :: bool
  tty :: bool
  restart :: "string list option"
  image_o :: string

record options = options_common +
  env :: "string list option"
  authConfig :: "string option"

record legacy_options = options_common +
  interactive :: bool

text \<open>
  What the runtime reports: an image with its id and its list of \<^verbatim>\<open>repository:tag\<close>
  names (an untagged image is listed with the single name \<^verbatim>\<open><none>:<none>\<close>), a
  container with its id and names, the state of an inspected container, and the
  options of the create and start requests.
\<close>

record image_record =
  Id_i :: string
  RepoTags :: "string list"

record container_descr =
  Id_c :: string
  Names :: "string list"

record container_state =
  Running :: bool

record inspect_result =
  State :: container_state

record createOptions =
  Image_c :: string
  name_c :: "string option"
  Env :: "string list option"
  Tty :: "bool option"

record restartPolicy =
  Name :: string

record startOptions =
  NetworkMode :: "string option"
  Binds :: "string list option"
  RestartPolicy :: "restartPolicy option"

text \<open>\<open>authconfig = Some k\<close> stands for the object \<^verbatim>\<open>{ key: k }\<close>.\<close>

record pullOptions =
  authconfig :: "string option"

text \<open>
  One JSON event of a pull's progress stream: whether it carries a
  \<^verbatim>\<open>progressDetail\<close> object, and its \<^verbatim>\<open>status\<close> line.
\<close>

record progress_event =
  progressDetail :: bool
  status :: "string option"

datatype stream = Stream nat

text \<open>
  Everything the program does to the outside world is an event: a request sent to the
  runtime, a shell command (legacy variant), a line on the console, the callback POST
  of the webhook, the port the listener binds.
\<close>

datatype api =
    ListImages
  | Pull string pullOptions
  | FollowProgress stream
  | ListContainers bool
  | Inspect string
  | Stop string
  | Remove string
  | CreateContainer createOptions
  | Start string startOptions
  | RemoveImage string
  | Exec string

datatype event =
    Call api
  | Log string
  | LogError err
  | HttpPost string string
  | Listen number

text \<open>
  The collaborators, over an arbitrary world \<open>'w\<close>. Every operation may fail and may
  change the world. \<open>followProgress\<close> delivers the stream's events and the error
  that ended it, if any; \<open>post\<close> is the outcome of the callback notification.
\<close>

record 'w docker =
  listImages :: "'w \<Rightarrow> (err + image_record list) \<times> 'w"
  pull :: "string \<Rightarrow> pullOptions \<Rightarrow> 'w \<Rightarrow> (err + stream) \<times> 'w"
  followProgress :: "stream \<Rightarrow> 'w \<Rightarrow> (progress_event list \<times> err option) \<times> 'w"
  listContainers :: "bool \<Rightarrow> 'w \<Rightarrow> (err + container_descr list) \<times> 'w"
  inspect :: "string \<Rightarrow> 'w \<Rightarrow> (err + inspect_result) \<times> 'w"
  stop :: "string \<Rightarrow> 'w \<Rightarrow> (err + unit) \<times> 'w"
  remove :: "string \<Rightarrow> 'w \<Rightarrow> (err + unit) \<times> 'w"
  createContainer :: "createOptions \<Rightarrow> 'w \<Rightarrow> (err + string) \<times> 'w"
  start :: "string \<Rightarrow> startOptions \<Rightarrow> 'w \<Rightarrow> (err + unit) \<times> 'w"
  removeImage :: "string \<Rightarrow> 'w \<Rightarrow> (err + unit) \<times> 'w"
  post :: "string \<Rightarrow> string \<Rightarrow> 'w \<Rightarrow> err option \<times> 'w"

section \<open>Asynchronous functions as state and exception passing\<close>

text \<open>
  An \<^verbatim>\<open>async\<close> function (a generator under \<^verbatim>\<open>co\<close> in the legacy variant) is a
  function from the world it starts in to its outcome, the events it caused, in
  order, and the world it leaves behind. A thrown exception keeps both: what was done
  before the throw stays done.
\<close>

type_synonym ('a, 'w) prog = "'w \<Rightarrow> (err + 'a) \<times> event list \<times> 'w"

definition return :: "'a \<Rightarrow> ('a, 'w) prog" where
  "return x w = (Inr x, [], w)"

definition throw :: "err \<Rightarrow> ('a, 'w) prog" where
  "throw e w = (Inl e, [], w)"

definition bnd :: "('a, 'w) prog \<Rightarrow> ('a \<Rightarrow> ('b, 'w) prog) \<Rightarrow> ('b, 'w) prog" where
  "bnd m f w =
     (case m w of
        (Inl e, evs, w') \<Rightarrow> (Inl e, evs, w')
      | (Inr x, evs, w') \<Rightarrow> (case f x w' of (r, evs', w'') \<Rightarrow> (r, evs @ evs', w'')))"

text \<open>\<^verbatim>\<open>try { m } finally { h }\<close>: \<open>h\<close> runs however \<open>m\<close> ends.\<close>

definition try_finally :: "('a, 'w) prog \<Rightarrow> (unit, 'w) prog \<Rightarrow> ('a, 'w) prog" where
  "try_finally m h w =
     (case m w of
        (r, evs, w') \<Rightarrow>
          (case h w' of
             (Inl e, evs', w'') \<Rightarrow> (Inl e, evs @ evs', w'')
           | (Inr _, evs', w'') \<Rightarrow> (r, evs @ evs', w'')))"

text \<open>\<^verbatim>\<open>try { m } catch (e) { h e }\<close>.\<close>

definition try_catch :: "('a, 'w) prog \<Rightarrow> (err \<Rightarrow> ('a, 'w) prog) \<Rightarrow> ('a, 'w) prog" where
  "try_catch m h w =
     (case m w of
        (Inl e, evs, w') \<Rightarrow> (case h e w' of (r, evs', w'') \<Rightarrow> (r, evs @ evs', w''))
      | (Inr x, evs, w') \<Rightarrow> (Inr x, evs, w'))"

definition emit :: "event \<Rightarrow> (unit, 'w) prog" where
  "emit ev w = (Inr (), [ev], w)"

definition console_log :: "string \<Rightarrow> (unit, 'w) prog" where
  "console_log line = emit (Log line)"

definition console_error :: "err \<Rightarrow> (unit, 'w) prog" where
  "console_error e = emit (LogError e)"

text \<open>A request to a collaborator: the request is recorded, then the world answers.\<close>

definition docker_call :: "api \<Rightarrow> ('w \<Rightarrow> (err + 'a) \<times> 'w) \<Rightarrow> ('a, 'w) prog" where
  "docker_call c f w = (case f w of (r, w') \<Rightarrow> (r, [Call c], w'))"

text \<open>JavaScript truthiness of an optional string: absent and empty are falsy.\<close>

definition truthy :: "string option \<Rightarrow> bool" where
  "truthy x = (case x of None \<Rightarrow> False | Some v \<Rightarrow> v \<noteq> [])"

section \<open>String helpers of the JavaScript library\<close>

text \<open>\<^verbatim>\<open>String.prototype.indexOf\<close> for one character: \<open>-1\<close> when it is absent.\<close>

primrec indexOf :: "string \<Rightarrow> char \<Rightarrow> int" where
  "indexOf [] c = -1"
| "indexOf (x # xs) c =
     (if x = c then 0 else (let i = indexOf xs c in if i = -1 then -1 else i + 1))"

text \<open>\<^verbatim>\<open>substr(start, length)\<close> and \<^verbatim>\<open>substr(start)\<close> for a start that is not negative.\<close>

definition substr :: "string \<Rightarrow> nat \<Rightarrow> nat \<Rightarrow> string" where
  "substr s first len = take len (drop first s)"

definition substr_from :: "string \<Rightarrow> nat \<Rightarrow> string" where
  "substr_from s first = drop first s"

section \<open>parseInt and the hexadecimal digest\<close>

text \<open>
  \<^verbatim>\<open>parseInt(string, radix)\<close> as ECMAScript defines it: leading white space and a sign
  are skipped, an absent radix means 10, a \<^verbatim>\<open>0x\<close> prefix is dropped (and selects
  radix 16) when the radix is absent or 16, and the longest prefix of digits of the
  radix is read; no digit at all gives \<^verbatim>\<open>NaN\<close>. (Values beyond 2^53, where a double
  rounds, do not occur for the four digits read here.)
\<close>

definition isStrWhiteSpace :: "char \<Rightarrow> bool" where
  "isStrWhiteSpace c = (of_char c \<in> {9, 10, 11, 12, 13, 32 :: nat})"

definition digitValue :: "char \<Rightarrow> nat option" where
  "digitValue c =
     (let n = (of_char c :: nat) in
      if 48 \<le> n \<and> n \<le> 57 then Some (n - 48)
      else if 97 \<le> n \<and> n \<le> 122 then Some (n - 87)
      else if 65 \<le> n \<and> n \<le> 90 then Some (n - 55)
      else None)"

primrec radix_digits :: "nat \<Rightarrow> string \<Rightarrow> nat list" where
  "radix_digits R [] = []"
| "radix_digits R (c # cs) =
     (case digitValue c of
        None \<Rightarrow> []
      | Some v \<Rightarrow> if v < R then v # radix_digits R cs else [])"

definition digits_value :: "nat \<Rightarrow> nat list \<Rightarrow> nat" where
  "digits_value R ds = foldl (\<lambda>acc v. acc * R + v) 0 ds"

definition parseInt :: "string \<Rightarrow> int option \<Rightarrow> number" where
  "parseInt string radix =
     (let S0 = dropWhile isStrWhiteSpace string;
          sign = (if take 1 S0 = ''-'' then -1 else 1 :: int);
          S1 = (if take 1 S0 = ''+'' \<or> take 1 S0 = ''-'' then drop 1 S0 else S0);
          R0 = (case radix of None \<Rightarrow> 0 | Some r \<Rightarrow> r)
      in if R0 \<noteq> 0 \<and> (R0 < 2 \<or> 36 < R0) then NaN
         else
           (let stripPrefix = (R0 = 0 \<or> R0 = 16);
                R1 = (if R0 = 0 then 10 else R0);
                hexPrefix = (stripPrefix \<and> (take 2 S1 = ''0x'' \<or> take 2 S1 = ''0X''));
                S2 = (if hexPrefix then drop 2 S1 else S1);
                R2 = (if hexPrefix then 16 else R1);
                Z = radix_digits (nat R2) S2
            in if Z = [] then NaN else Num (sign * int (digits_value (nat R2) Z))))"

text \<open>The remainder \<^verbatim>\<open>%\<close> (sign of the dividend) and \<^verbatim>\<open>+\<close> on numbers.\<close>

fun js_rem :: "number \<Rightarrow> number \<Rightarrow> number" where
  "js_rem (Num a) (Num b) = (if b = 0 then NaN else Num (sgn a * (\<bar>a\<bar> mod \<bar>b\<bar>)))"
| "js_rem _ _ = NaN"

fun js_add :: "number \<Rightarrow> number \<Rightarrow> number" where
  "js_add (Num a) (Num b) = Num (a + b)"
| "js_add _ _ = NaN"

text \<open>
  \<^verbatim>\<open>digest('hex')\<close> of a 128-bit digest: 32 lower-case hexadecimal digits, the most
  significant first. The hash itself (\<^verbatim>\<open>crypto.createHash('md5')\<close>) is a parameter
  \<open>h\<close> of the port computation.
\<close>

definition hexchar :: "nat \<Rightarrow> char" where
  "hexchar n = ''0123456789abcdef'' ! n"

definition digest_hex :: "128 word \<Rightarrow> string" where
  "digest_hex w = map (\<lambda>i. hexchar (unat (drop_bit (4 * (31 - i)) w) mod 16)) [0..<32]"

section \<open>The runtime-API variant\<close>

definition WEBHOOK_URL :: string where
  "WEBHOOK_URL = ''/v1/docker-images/push''"

definition getImageId :: "'w docker \<Rightarrow> options \<Rightarrow> (string option, 'w) prog" where
  "getImageId d opts =
     bnd (docker_call ListImages (listImages d)) (\<lambda>images.
       return (case find (\<lambda>img. image_o opts \<in> set (RepoTags img)) images of
                 None \<Rightarrow> None
               | Some img \<Rightarrow> Some (Id_i img)))"

definition onProgress :: "progress_event \<Rightarrow> event list" where
  "onProgress ev =
     (if progressDetail ev then []
      else if truthy (status ev) then [Log (the (status ev))] else [])"

definition awaitStream :: "'w docker \<Rightarrow> stream \<Rightarrow> (progress_event list, 'w) prog" where
  "awaitStream d strm w =
     (case followProgress d strm w of
        ((events, failure), w') \<Rightarrow>
          (let evs = Call (FollowProgress strm) # concat (map onProgress events)
           in case failure of Some e \<Rightarrow> (Inl e, evs, w') | None \<Rightarrow> (Inr events, evs, w')))"

text \<open>The \<^verbatim>\<open>opts\<close> object of \<^verbatim>\<open>pullImage\<close>: the auth token, when one is configured.\<close>

definition pull_opts :: "options \<Rightarrow> pullOptions" where
  "pull_opts opts = \<lparr>authconfig = (if truthy (authConfig opts) then authConfig opts else None)\<rparr>"

definition pullImage :: "'w docker \<Rightarrow> options \<Rightarrow> (bool, 'w) prog" where
  "pullImage d opts =
     try_finally
       (bnd (getImageId d opts) (\<lambda>previousId.
        bnd (docker_call (Pull (image_o opts) (pull_opts opts))
               (pull d (image_o opts) (pull_opts opts))) (\<lambda>strm.
        bnd (awaitStream d strm) (\<lambda>_.
        bnd (getImageId d opts) (\<lambda>currentId.
        return (currentId \<noteq> previousId))))))
       (console_log ''pullImage: done'')"

definition runImage :: "'w docker \<Rightarrow> options \<Rightarrow> (unit, 'w) prog" where
  "runImage d opts =
     try_finally
       (let createOptions0 = \<lparr>Image_c = image_o opts, name_c = None, Env = None, Tty = None\<rparr>;
            startOptions0 = \<lparr>NetworkMode = None, Binds = None, RestartPolicy = None\<rparr>;
            createOptions1 = (if name opts \<noteq> [] then createOptions0\<lparr>name_c := Some (name opts)\<rparr>
                              else createOptions0);
            startOptions1 = (if truthy (net opts) then startOptions0\<lparr>NetworkMode := net opts\<rparr>
                             else startOptions0);
            startOptions2 = (if volume opts \<noteq> None then startOptions1\<lparr>Binds := volume opts\<rparr>
                             else startOptions1);
            createOptions2 = (if env opts \<noteq> None then createOptions1\<lparr>Env := env opts\<rparr>
                              else createOptions1)
        in if \<not> detach opts then throw (Error ''non detached mode is unsupported'')
           else
             (let createOptions3 = (if tty opts then createOptions2\<lparr>Tty := Some True\<rparr>
                                    else createOptions2);
                  startOptions3 =
                    (case restart opts of
                       None \<Rightarrow> startOptions2
                     | Some policies \<Rightarrow>
                         if ''always'' \<in> set policies
                         then startOptions2\<lparr>RestartPolicy := Some \<lparr>Name = ''always''\<rparr>\<rparr>
                         else startOptions2)
              in bnd (docker_call (CreateContainer createOptions3) (createContainer d createOptions3))
                   (\<lambda>container.
                      docker_call (Start container startOptions3) (start d container startOptions3))))
       (console_log ''runImage: done'')"

text \<open>The loop of \<^verbatim>\<open>removeOldImages\<close>: each removal in a try/catch of its own.\<close>

primrec remove_each :: "'w docker \<Rightarrow> image_record list \<Rightarrow> (unit, 'w) prog" where
  "remove_each d [] = return ()"
| "remove_each d (img # rest) =
     bnd (try_catch
            (bnd (docker_call (RemoveImage (Id_i img)) (removeImage d (Id_i img))) (\<lambda>_.
               console_log (''Image '' @ Id_i img @ '' removed'')))
            (\<lambda>e. console_error e))
         (\<lambda>_. remove_each d rest)"

definition removeOldImages :: "'w docker \<Rightarrow> (unit, 'w) prog" where
  "removeOldImages d =
     try_finally
       (bnd (docker_call ListImages (listImages d)) (\<lambda>images.
          remove_each d (filter (\<lambda>img. RepoTags img = [''<none>:<none>'']) images)))
       (console_log ''removeOldImages: done'')"

definition getImageName :: "'a options_common_scheme \<Rightarrow> string" where
  "getImageName opts =
     (let nm = image_o opts; index = indexOf nm CHR '':''
      in if index \<noteq> -1 then substr nm 0 (nat index) else nm)"

definition determineImagePort :: "(string \<Rightarrow> 128 word) \<Rightarrow> options \<Rightarrow> number" where
  "determineImagePort h opts =
     (let hash = digest_hex (h (image_o opts));
          port = parseInt (''0x'' @ substr hash 0 4) (Some 16)
      in js_add (js_rem port (Num 16384)) (Num 49152))"

definition getContainerId :: "'w docker \<Rightarrow> string \<Rightarrow> (string option, 'w) prog" where
  "getContainerId d nm =
     bnd (docker_call (ListContainers True) (listContainers d True)) (\<lambda>containers.
       return (case find (\<lambda>c. (''/'' @ nm) \<in> set (Names c)) containers of
                 None \<Rightarrow> None
               | Some c \<Rightarrow> Some (Id_c c)))"

definition stopContainer :: "'w docker \<Rightarrow> options \<Rightarrow> (unit, 'w) prog" where
  "stopContainer d opts =
     try_finally
       (bnd (getContainerId d (name opts)) (\<lambda>id.
          if \<not> truthy id then return ()
          else bnd (docker_call (Inspect (the id)) (inspect d (the id))) (\<lambda>out.
                 if \<not> Running (State out) then return ()
                 else docker_call (Stop (the id)) (stop d (the id)))))
       (console_log ''stopContainer: done'')"

definition removeContainer :: "'w docker \<Rightarrow> options \<Rightarrow> (unit, 'w) prog" where
  "removeContainer d opts =
     try_finally
       (bnd (getContainerId d (name opts)) (\<lambda>id.
          if \<not> truthy id then return ()
          else docker_call (Remove (the id)) (remove d (the id))))
       (console_log ''removeContainer: done'')"

definition check :: "'w docker \<Rightarrow> options \<Rightarrow> (unit, 'w) prog" where
  "check d opts =
     bnd (pullImage d opts) (\<lambda>changed.
       if changed
       then bnd (stopContainer d opts) (\<lambda>_.
            bnd (removeContainer d opts) (\<lambda>_.
            bnd (runImage d opts) (\<lambda>_.
            removeOldImages d)))
       else return ())"

text \<open>\<^verbatim>\<open>String(port)\<close>, for the line the listener prints once it is bound.\<close>

fun show_nat :: "nat \<Rightarrow> string" where
  "show_nat n =
     (if n < 10 then [''0123456789'' ! n]
      else show_nat (n div 10) @ [''0123456789'' ! (n mod 10)])"

fun show_number :: "number \<Rightarrow> string" where
  "show_number NaN = ''NaN''"
| "show_number (Num i) = (if i < 0 then ''-'' @ show_nat (nat (- i)) else show_nat (nat i))"

text \<open>
  The webhook. A request carries its method, its URL and the parsed JSON body; a body
  without a \<^verbatim>\<open>repository\<close> object makes the handler throw where it reads
  \<^verbatim>\<open>payload.repository.repo_name\<close>. The handler either answers with a status or hands
  the request to the next middleware.
\<close>

record repository_obj =
  repo_name :: string

record payload =
  repository :: "repository_obj option"
  callback_url :: string

record request =
  req_method :: string
  req_url :: string
  req_body :: payload

datatype outcome = Status nat | Next

text \<open>
  \<^verbatim>\<open>request({ method: 'post', url, body: { state }, json: true }, callback)\<close>: the POST is
  sent; a delivery failure is only printed by the callback.
\<close>

definition request_post :: "'w docker \<Rightarrow> string \<Rightarrow> string \<Rightarrow> (unit, 'w) prog" where
  "request_post d callbackURL st w =
     (case post d callbackURL st w of
        (failure, w') \<Rightarrow>
          (Inr (),
           HttpPost callbackURL st # (case failure of Some e \<Rightarrow> [LogError e] | None \<Rightarrow> []),
           w'))"

definition webhook :: "'w docker \<Rightarrow> options \<Rightarrow> request \<Rightarrow> (outcome, 'w) prog" where
  "webhook d opts req =
     (if req_method req = ''POST'' \<and> req_url req = WEBHOOK_URL
      then
        (case repository (req_body req) of
           None \<Rightarrow> throw (TypeError ''Cannot read property repo_name of undefined'')
         | Some repo \<Rightarrow>
             (let repoName = repo_name repo;
                  nm = getImageName opts;
                  err0 = (if repoName \<noteq> nm
                          then Some (Error (''webhook triggered for a different image name ('' @
                                 [CHR 0x22] @ repoName @ [CHR 0x22] @ '' instead of '' @
                                 [CHR 0x22] @ nm @ [CHR 0x22] @ '')''))
                          else None)
              in bnd (if err0 = None
                      then try_catch (bnd (check d opts) (\<lambda>_. return None)) (\<lambda>e. return (Some e))
                      else return err0) (\<lambda>err1.
                 bnd (if err1 \<noteq> None then console_error (the err1) else return ()) (\<lambda>_.
                 bnd (request_post d (callback_url (req_body req))
                        (if err1 \<noteq> None then ''error'' else ''success'')) (\<lambda>_.
                 return (Status 204))))))
      else return Next)"

definition listenImagePush :: "(string \<Rightarrow> 128 word) \<Rightarrow> options \<Rightarrow> (unit, 'w) prog" where
  "listenImagePush h opts =
     (let port = determineImagePort h opts
      in bnd (emit (Listen port)) (\<lambda>_.
         console_log (''listenImagePush: running on http://<domain.name>:'' @ show_number port @
                      WEBHOOK_URL)))"

definition main :: "'w docker \<Rightarrow> (string \<Rightarrow> 128 word) \<Rightarrow> options \<Rightarrow> (unit, 'w) prog" where
  "main d h opts =
     bnd (check d opts) (\<lambda>_.
     bnd (getContainerId d (name opts)) (\<lambda>id.
     bnd (if \<not> truthy id then runImage d opts else return ()) (\<lambda>_.
     if (case restart opts of None \<Rightarrow> False | Some policies \<Rightarrow> ''image-push'' \<in> set policies)
     then listenImagePush h opts
     else return ())))"

text \<open>\<^verbatim>\<open>main().catch(console.error)\<close>: the process prints the error and goes on.\<close>

definition run :: "'w docker \<Rightarrow> (string \<Rightarrow> 128 word) \<Rightarrow> options \<Rightarrow> (unit, 'w) prog" where
  "run d h opts = try_catch (main d h opts) (\<lambda>e. console_error e)"

text \<open>
  The start of the process. The option table of the program declares \<^verbatim>\<open>name\<close>,
  \<^verbatim>\<open>detach\<close> and \<^verbatim>\<open>image\<close> with \<^verbatim>\<open>required: true\<close>. The argument parser (nomnom, not
  part of the sources) goes through the table in order and, at the first required
  option the command line does not give, prints the usage and exits with status 1,
  before anything else runs; the usage text is the parser's and is left out. A flag
  given as \<^verbatim>\<open>--no-detach\<close> is given, with value false. Otherwise the program runs
  with the parsed options.
\<close>

record arguments =
  arg_name :: "string option"
  arg_net :: "string option"
  arg_volume :: "string list option"
  arg_env :: "string list option"
  arg_detach :: "bool option"
  arg_tty :: "bool option"
  arg_restart :: "string list option"
  arg_image :: "string option"
  arg_authConfig :: "string option"

definition parse_arguments :: "arguments \<Rightarrow> string + options" where
  "parse_arguments a =
     (case arg_name a of
        None \<Rightarrow> Inl ''name''
      | Some n \<Rightarrow>
          (case arg_detach a of
             None \<Rightarrow> Inl ''detach''
           | Some dt \<Rightarrow>
               (case arg_image a of
                  None \<Rightarrow> Inl ''image''
                | Some i \<Rightarrow>
                    Inr \<lparr>name = n, net = arg_net a, volume = arg_volume a, detach = dt,
                         tty = (arg_tty a = Some True), restart = arg_restart a, image_o = i,
                         env = arg_env a, authConfig = arg_authConfig a\<rparr>)))"

datatype startup = UsageExit string | Ran

definition docker_runner ::
  "'w docker \<Rightarrow> (string \<Rightarrow> 128 word) \<Rightarrow> arguments \<Rightarrow> 'w \<Rightarrow> startup \<times> event list \<times> 'w" where
  "docker_runner d h a w =
     (case parse_arguments a of
        Inl missing \<Rightarrow> (UsageExit (missing @ '' argument is required''), [], w)
      | Inr opts \<Rightarrow> (case run d h opts w of (r, evs, w') \<Rightarrow> (Ran, evs, w')))"

section \<open>The legacy shell-parsing variant\<close>

text \<open>
  The legacy variant runs the \<^verbatim>\<open>docker\<close> command line and parses its tables with
  node-shell-parser: both are parameters. A parsed row maps column headers to cells.
\<close>

type_synonym row = "(string \<times> string) list"

record 'w shell =
  exec :: "string \<Rightarrow> 'w \<Rightarrow> (err + string) \<times> 'w"
  shellParser :: "string \<Rightarrow> row list"

definition getImageTag :: "'a options_common_scheme \<Rightarrow> string" where
  "getImageTag opts =
     (let nm = image_o opts; index = indexOf nm CHR '':''
      in if index \<noteq> -1 then substr_from nm (nat (index + 1)) else ''latest'')"

definition getImageId_legacy :: "'w shell \<Rightarrow> legacy_options \<Rightarrow> (string option, 'w) prog" where
  "getImageId_legacy sh opts =
     bnd (docker_call (Exec ''docker images --no-trunc'') (exec sh ''docker images --no-trunc''))
       (\<lambda>text_out.
          (case find (\<lambda>r. map_of r ''REPOSITORY'' = Some (getImageName opts) \<and>
                           map_of r ''TAG'' = Some (getImageTag opts))
                     (shellParser sh text_out) of
             None \<Rightarrow> return None
           | Some r \<Rightarrow> return (map_of r ''IMAGE ID'')))"

definition determineImagePort_legacy :: "(string \<Rightarrow> 128 word) \<Rightarrow> legacy_options \<Rightarrow> number" where
  "determineImagePort_legacy h opts =
     (let hash = digest_hex (h (image_o opts));
          port = parseInt (''0x'' @ substr hash 0 4) None
      in js_add (js_rem port (Num 16384)) (Num 49152))"

section \<open>A small runtime for the examples\<close>

text \<open>
  A daemon that never fails except where told to: its image store, the store as it
  will be once a pull has completed, its containers (each with its running flag), the
  images it refuses to delete, and whether it refuses to create containers.
\<close>

record sim_world =
  sim_images :: "image_record list"
  sim_incoming :: "image_record list"
  sim_containers :: "(container_descr \<times> bool) list"
  sim_locked :: "string list"
  sim_create_fails :: bool

definition sim :: "sim_world docker" where
  "sim =
     \<lparr>listImages = (\<lambda>w. (Inr (sim_images w), w)),
      pull = (\<lambda>ref popts w. (Inr (Stream 0), w)),
      followProgress = (\<lambda>strm w.
        (([\<lparr>progressDetail = False, status = Some ''Pulling from registry''\<rparr>,
           \<lparr>progressDetail = True, status = Some ''Downloading''\<rparr>], None),
         w\<lparr>sim_images := sim_incoming w\<rparr>)),
      listContainers = (\<lambda>all w.
        (Inr (map fst (if all then sim_containers w else filter snd (sim_containers w))), w)),
      inspect = (\<lambda>i w.
        (case find (\<lambda>c. Id_c (fst c) = i) (sim_containers w) of
           None \<Rightarrow> (Inl (RuntimeFailure ''no such container''), w)
         | Some c \<Rightarrow> (Inr \<lparr>State = \<lparr>Running = snd c\<rparr>\<rparr>, w))),
      stop = (\<lambda>i w.
        (Inr (),
         w\<lparr>sim_containers :=
             map (\<lambda>c. if Id_c (fst c) = i then (fst c, False) else c) (sim_containers w)\<rparr>)),
      remove = (\<lambda>i w.
        (Inr (), w\<lparr>sim_containers := filter (\<lambda>c. Id_c (fst c) \<noteq> i) (sim_containers w)\<rparr>)),
      createContainer = (\<lambda>copts w.
        if sim_create_fails w then (Inl (RuntimeFailure ''cannot create container''), w)
        else
          (Inr ''c-new'',
           w\<lparr>sim_containers := sim_containers w @
               [(\<lparr>Id_c = ''c-new'',
                  Names = (case name_c copts of None \<Rightarrow> [] | Some n \<Rightarrow> [''/'' @ n])\<rparr>, False)]\<rparr>)),
      start = (\<lambda>i sopts w.
        (Inr (),
         w\<lparr>sim_containers :=
             map (\<lambda>c. if Id_c (fst c) = i then (fst c, True) else c) (sim_containers w)\<rparr>)),
      removeImage = (\<lambda>i w.
        if i \<in> set (sim_locked w) then (Inl (RuntimeFailure ''image is in use''), w)
        else (Inr (), w\<lparr>sim_images := filter (\<lambda>img. Id_i img \<noteq> i) (sim_images w)\<rparr>)),
      post = (\<lambda>callbackURL st w. (None, w))\<rparr>"

text \<open>The configuration of the examples: container \<^verbatim>\<open>web\<close> from image \<^verbatim>\<open>myorg/app:v1\<close>.\<close>

definition web_opts :: options where
  "web_opts =
     \<lparr>name = ''web'', net = None, volume = None, detach = True, tty = False,
      restart = Some [''always'', ''image-push''], image_o = ''myorg/app:v1'',
      env = None, authConfig = None\<rparr>"

text \<open>
  A host where \<^verbatim>\<open>web\<close> runs revision \<^verbatim>\<open>sha256:old\<close>, a stale untagged image is left
  from an earlier deploy, and the registry holds a newer build: after the pull the
  tag has moved to \<^verbatim>\<open>sha256:new\<close> and the old revision is untagged.
\<close>

definition host_outdated :: sim_world where
  "host_outdated =
     \<lparr>sim_images =
        [\<lparr>Id_i = ''sha256:old'', RepoTags = [''myorg/app:v1'']\<rparr>,
         \<lparr>Id_i = ''sha256:stale'', RepoTags = [''<none>:<none>'']\<rparr>,
         \<lparr>Id_i = ''sha256:db'', RepoTags = [''postgres:9'', ''postgres:latest'']\<rparr>],
      sim_incoming =
        [\<lparr>Id_i = ''sha256:new'', RepoTags = [''myorg/app:v1'']\<rparr>,
         \<lparr>Id_i = ''sha256:old'', RepoTags = [''<none>:<none>'']\<rparr>,
         \<lparr>Id_i = ''sha256:stale'', RepoTags = [''<none>:<none>'']\<rparr>,
         \<lparr>Id_i = ''sha256:db'', RepoTags = [''postgres:9'', ''postgres:latest'']\<rparr>],
      sim_containers = [(\<lparr>Id_c = ''c-old'', Names = [''/web'']\<rparr>, True)],
      sim_locked = [],
      sim_create_fails = False\<rparr>"

text \<open>The same host when the registry has nothing newer.\<close>

definition host_current :: sim_world where
  "host_current = host_outdated\<lparr>sim_incoming := sim_images host_outdated\<rparr>"

text \<open>\<open>host_outdated\<close> once the pull has completed.\<close>

definition host_pulled :: sim_world where
  "host_pulled = host_outdated\<lparr>sim_images := sim_incoming host_outdated\<rparr>"

text \<open>The same, when the daemon refuses to delete the revision that was just replaced.\<close>

definition host_locked :: sim_world where
  "host_locked = host_pulled\<lparr>sim_locked := [''sha256:old'']\<rparr>"

text \<open>A push notification for the repository of the given name.\<close>

definition push_request :: "string \<Rightarrow> request" where
  "push_request repo =
     \<lparr>req_method = ''POST'', req_url = WEBHOOK_URL,
      req_body = \<lparr>repository = Some \<lparr>repo_name = repo\<rparr>,
                  callback_url = ''http://hub.example/callback''\<rparr>\<rparr>"

text \<open>A POST to the webhook path whose body has no \<^verbatim>\<open>repository\<close> object.\<close>

definition bare_request :: request where
  "bare_request =
     \<lparr>req_method = ''POST'', req_url = WEBHOOK_URL,
      req_body = \<lparr>repository = None, callback_url = ''http://hub.example/callback''\<rparr>\<rparr>"

text \<open>
  The same deployment from a private registry that is addressed with a port: the
  repository is \<^verbatim>\<open>localhost:5000/app\<close>, the tag \<^verbatim>\<open>v1\<close>.
\<close>

definition registry_opts :: options where
  "registry_opts = web_opts\<lparr>image_o := ''localhost:5000/app:v1''\<rparr>"

definition host_registry :: sim_world where
  "host_registry =
     \<lparr>sim_images = [\<lparr>Id_i = ''sha256:old'', RepoTags = [''localhost:5000/app:v1'']\<rparr>],
      sim_incoming = [\<lparr>Id_i = ''sha256:new'', RepoTags = [''localhost:5000/app:v1'']\<rparr>,
                      \<lparr>Id_i = ''sha256:old'', RepoTags = [''<none>:<none>'']\<rparr>],
      sim_containers = [(\<lparr>Id_c = ''c-old'', Names = [''/web'']\<rparr>, True)],
      sim_locked = [],
      sim_create_fails = False\<rparr>"

text \<open>The command line \<^verbatim>\<open>--name web --restart always --restart image-push myorg/app:v1\<close>
  with the detach flag given as the argument says: left out, or with a value.\<close>

definition web_args :: "bool option \<Rightarrow> arguments" where
  "web_args dt =
     \<lparr>arg_name = Some ''web'', arg_net = None, arg_volume = None, arg_env = None,
      arg_detach = dt, arg_tty = None, arg_restart = Some [''always'', ''image-push''],
      arg_image = Some ''myorg/app:v1'', arg_authConfig = None\<rparr>"

text \<open>
  A host whose only build of the application is tagged \<^verbatim>\<open>latest\<close>, as a pull of the
  bare name \<^verbatim>\<open>myorg/app\<close> leaves it.
\<close>

definition host_latest :: sim_world where
  "host_latest =
     \<lparr>sim_images = [\<lparr>Id_i = ''sha256:new'', RepoTags = [''myorg/app:latest'']\<rparr>],
      sim_incoming = [\<lparr>Id_i = ''sha256:newer'', RepoTags = [''myorg/app:latest'']\<rparr>,
                      \<lparr>Id_i = ''sha256:new'', RepoTags = [''<none>:<none>'']\<rparr>],
      sim_containers = [(\<lparr>Id_c = ''c-old'', Names = [''/web'']\<rparr>, True)],
      sim_locked = [],
      sim_create_fails = False\<rparr>"

text \<open>The MD5 digests of the image refs of the examples; other strings are not needed.\<close>

definition md5_known :: "string \<Rightarrow> 128 word" where
  "md5_known s =
     (if s = ''myorg/app:v1'' then 0x595bdc9185183e51205c05700749f4cf
      else if s = ''myorg/app'' then 0xdac361a25be8625372d5487f1973cca1
      else if s = ''myorg/app:latest'' then 0x7f9d8d364009b57f468e74abb58dc246
      else 0)"

text \<open>
  The legacy variant's view of \<open>host_latest\<close>: the world is the text that
  \<^verbatim>\<open>docker images --no-trunc\<close> prints, and the parser is given by its result on that
  text.
\<close>

definition legacy_web_opts :: legacy_options where
  "legacy_web_opts =
     \<lparr>name = ''web'', net = None, volume = None, detach = True, tty = False,
      restart = Some [''always'', ''image-push''], image_o = ''myorg/app'',
      interactive = False\<rparr>"

definition listing_latest :: string where
  "listing_latest =
     ''REPOSITORY  TAG     IMAGE ID    CREATED     VIRTUAL SIZE'' @ [CHR 0x0A] @
     ''myorg/app   latest  sha256:new  2 days ago  120 MB'' @ [CHR 0x0A]"

definition cli :: "string shell" where
  "cli =
     \<lparr>exec = (\<lambda>cmd w. (Inr w, w)),
      shellParser = (\<lambda>text_out.
        if text_out = listing_latest
        then [[(''REPOSITORY'', ''myorg/app''), (''TAG'', ''latest''), (''IMAGE ID'', ''sha256:new''),
               (''CREATED'', ''2 days ago''), (''VIRTUAL SIZE'', ''120 MB'')]]
        else [])\<rparr>"

section \<open>Observations on the events of a run\<close>

text \<open>The requests that change containers or delete images.\<close>

fun lifecycle_or_gc :: "event \<Rightarrow> bool" where
  "lifecycle_or_gc (Call (Stop i)) = True"
| "lifecycle_or_gc (Call (Remove i)) = True"
| "lifecycle_or_gc (Call (CreateContainer copts)) = True"
| "lifecycle_or_gc (Call (Start i sopts)) = True"
| "lifecycle_or_gc (Call (RemoveImage i)) = True"
| "lifecycle_or_gc ev = False"

text \<open>
  The place of such a request in a pass: stop, remove, create, start, image removal.
  Other events have no place.
\<close>

fun step_rank :: "event \<Rightarrow> nat" where
  "step_rank (Call (Stop i)) = 1"
| "step_rank (Call (Remove i)) = 2"
| "step_rank (Call (CreateContainer copts)) = 3"
| "step_rank (Call (Start i sopts)) = 4"
| "step_rank (Call (RemoveImage i)) = 5"
| "step_rank ev = 0"

definition lifecycle_ranks :: "event list \<Rightarrow> nat list" where
  "lifecycle_ranks evs = map step_rank (filter lifecycle_or_gc evs)"

text \<open>The ids of the images whose removal was requested, in order.\<close>

fun removal_requests :: "event list \<Rightarrow> string list" where
  "removal_requests [] = []"
| "removal_requests (Call (RemoveImage i) # evs) = i # removal_requests evs"
| "removal_requests (ev # evs) = removal_requests evs"

text \<open>
  What the runtime answers when the given images are removed one after the other,
  whatever each answer is.
\<close>

primrec removal_answers :: "'w docker \<Rightarrow> image_record list \<Rightarrow> 'w \<Rightarrow> (err + unit) list" where
  "removal_answers d [] w = []"
| "removal_answers d (img # rest) w =
     (case removeImage d (Id_i img) w of (r, w') \<Rightarrow> r # removal_answers d rest w')"

text \<open>The world those removals leave behind.\<close>

primrec removal_world :: "'w docker \<Rightarrow> image_record list \<Rightarrow> 'w \<Rightarrow> 'w" where
  "removal_world d [] w = w"
| "removal_world d (img # rest) w = removal_world d rest (snd (removeImage d (Id_i img) w))"

text \<open>What \<^verbatim>\<open>removeOldImages\<close> shows for one removal and its answer.\<close>

definition removal_events :: "image_record \<times> (err + unit) \<Rightarrow> event list" where
  "removal_events p =
     [Call (RemoveImage (Id_i (fst p))),
      (case snd p of
         Inl e \<Rightarrow> LogError e
       | Inr u \<Rightarrow> Log (''Image '' @ Id_i (fst p) @ '' removed''))]"

definition dangling :: "image_record list \<Rightarrow> image_record list" where
  "dangling images = filter (\<lambda>img. RepoTags img = [''<none>:<none>'']) images"

text \<open>What the callback notification shows: the POST, and the failure it may print.\<close>

definition callback_events :: "'w docker \<Rightarrow> string \<Rightarrow> string \<Rightarrow> 'w \<Rightarrow> event list" where
  "callback_events d callbackURL st w =
     HttpPost callbackURL st #
       (case fst (post d callbackURL st w) of Some e \<Rightarrow> [LogError e] | None \<Rightarrow> [])"

section \<open>The derived port\<close>

lemma hex_digit_cases:
  fixes n :: nat
  assumes "n < 16"
  shows "n \<in> {0, 1, 2, 3, 4, 5, 6, 7} \<union> {8, 9, 10, 11, 12, 13, 14, 15}"
  using assms by simp arith

lemma digitValue_hexchar: "n < 16 \<Longrightarrow> digitValue (hexchar n) = Some n"
  by (drule hex_digit_cases) (auto simp: hexchar_def digitValue_def)

lemma substr4_digest_hex:
  "substr (digest_hex w) 0 4 =
     map (\<lambda>i. hexchar (unat (drop_bit (4 * (31 - i)) w) mod 16)) [0..<4]"
  by (simp add: substr_def digest_hex_def take_map)

lemma not_white_0: "\<not> isStrWhiteSpace CHR ''0''"
  by (simp add: isStrWhiteSpace_def)

lemma parseInt_0x_radix: "parseInt (''0x'' @ ds) None = parseInt (''0x'' @ ds) (Some 16)"
  by (simp add: parseInt_def Let_def not_white_0)

lemma parseInt_four:
  assumes "a < 16" "b < 16" "c < 16" "e < 16"
  shows "parseInt (''0x'' @ [hexchar a, hexchar b, hexchar c, hexchar e]) (Some 16)
         = Num (int (((a * 16 + b) * 16 + c) * 16 + e))"
  using assms
  by (simp add: parseInt_def Let_def not_white_0 digitValue_hexchar digits_value_def)

lemma top16:
  fixes x :: nat
  assumes "x < 2 ^ 128"
  shows "((((x div 2 ^ 124) mod 16) * 16 + (x div 2 ^ 120) mod 16) * 16 + (x div 2 ^ 116) mod 16) * 16
           + (x div 2 ^ 112) mod 16 = x div 2 ^ 112"
proof -
  define y where "y = x div 2 ^ 112"
  define y1 where "y1 = y div 16"
  define y2 where "y2 = y1 div 16"
  define y3 where "y3 = y2 div 16"
  have "x < 2 ^ 16 * 2 ^ 112" using assms by simp
  then have y: "y < 2 ^ 16" unfolding y_def by (rule less_mult_imp_div_less)
  have a: "x div 2 ^ 116 = y1"
    unfolding y1_def y_def div_mult2_eq[symmetric] by simp
  have b: "x div 2 ^ 120 = y2"
    unfolding y2_def y1_def y_def div_mult2_eq[symmetric] by simp
  have c: "x div 2 ^ 124 = y3"
    unfolding y3_def y2_def y1_def y_def div_mult2_eq[symmetric] by simp
  have "y3 = y div 4096"
    unfolding y3_def y2_def y1_def div_mult2_eq[symmetric] by simp
  also have "\<dots> < 16" using y by (simp add: less_mult_imp_div_less)
  finally have y3: "y3 mod 16 = y3" by simp
  have e1: "y1 * 16 + y mod 16 = y" unfolding y1_def by (rule div_mult_mod_eq)
  have e2: "y2 * 16 + y1 mod 16 = y1" unfolding y2_def by (rule div_mult_mod_eq)
  have e3: "y3 * 16 + y2 mod 16 = y2" unfolding y3_def by (rule div_mult_mod_eq)
  show ?thesis unfolding a b c y_def[symmetric] y3 e3 e2 e1 ..
qed

lemma parseInt_digest:
  "parseInt (''0x'' @ substr (digest_hex w) 0 4) (Some 16) = Num (int (unat (drop_bit 112 w)))"
proof -
  let ?x = "unat w"
  have x: "?x < 2 ^ 128" using unsigned_less [of w] by simp
  have l: "[0..<4] = [0, 1, 2, 3::nat]" by (simp add: upt_rec numeral_eq_Suc)
  have nib: "unat (drop_bit k w) = ?x div 2 ^ k" for k
    by (simp only: unat_drop_bit_eq) (simp add: drop_bit_eq_div)
  have "parseInt (''0x'' @ substr (digest_hex w) 0 4) (Some 16) =
        Num (int ((((?x div 2 ^ 124 mod 16) * 16 + ?x div 2 ^ 120 mod 16) * 16
                    + ?x div 2 ^ 116 mod 16) * 16 + ?x div 2 ^ 112 mod 16))"
    unfolding substr4_digest_hex l
    by (simp add: parseInt_four nib del: append.simps)
  then show ?thesis
    by (simp only: top16 [OF x] nib)
qed

lemma port_range:
  fixes n :: nat
  shows "js_add (js_rem (Num (int n)) (Num 16384)) (Num 49152) = Num (int (n mod 16384) + 49152)"
  by (cases "n = 0") (simp_all add: zmod_int)


lemma determineImagePort_value:
  "determineImagePort h opts =
     Num (int (unat (drop_bit 112 (h (image_o opts))) mod 16384) + 49152)"
  by (simp only: determineImagePort_def Let_def parseInt_digest port_range)

lemma determineImagePort_legacy_value:
  "determineImagePort_legacy h lopts =
     Num (int (unat (drop_bit 112 (h (image_o lopts))) mod 16384) + 49152)"
  by (simp only: determineImagePort_legacy_def Let_def parseInt_0x_radix parseInt_digest port_range)

lemma md5_known_top16:
  "unat (drop_bit 112 (md5_known ''myorg/app:v1'')) = 22875"
  "unat (drop_bit 112 (md5_known ''myorg/app'')) = 56003"
  by (simp_all add: md5_known_def unat_drop_bit_eq drop_bit_eq_div)

text \<open>
  C4. The port is a function of the image ref alone: two configurations with the same
  ref get the same port. It is the number read from the first four hexadecimal digits
  of the digest (its first 16 bits), reduced modulo 16384 and shifted by 49152, and it
  lies between 49152 and 65535.
\<close>

theorem determineImagePort_spec:
  assumes "image_o opts' = image_o opts"
  shows "determineImagePort h opts' = determineImagePort h opts \<and>
         determineImagePort h opts =
           Num (int (unat (drop_bit 112 (h (image_o opts))) mod 16384) + 49152) \<and>
         (\<exists>p. determineImagePort h opts = Num p \<and> 49152 \<le> p \<and> p \<le> 65535)"
proof -
  let ?v = "unat (drop_bit 112 (h (image_o opts))) mod 16384"
  have "?v < 16384" by simp
  then have "int ?v + 49152 \<le> 65535" by linarith
  moreover have "49152 \<le> int ?v + 49152" by simp
  ultimately show ?thesis
    using assms by (simp add: determineImagePort_value)
qed

theorem determineImagePort_spec_witness:
  "image_o (web_opts\<lparr>name := ''api''\<rparr>) = image_o web_opts \<and>
   determineImagePort md5_known (web_opts\<lparr>name := ''api''\<rparr>) = Num 55643 \<and>
   determineImagePort md5_known web_opts = Num 55643"
proof -
  have same: "image_o (web_opts\<lparr>name := ''api''\<rparr>) = image_o web_opts" by simp
  have ref: "image_o web_opts = ''myorg/app:v1''" by (simp add: web_opts_def)
  from determineImagePort_spec [OF same, of md5_known]
  show ?thesis by (simp add: ref md5_known_top16)
qed

text \<open>
  C9. For the same image ref the legacy variant, which leaves the radix of
  \<^verbatim>\<open>parseInt\<close> out, and the runtime-API variant, which passes 16, derive the same
  port.
\<close>

theorem legacy_port_agrees:
  assumes "image_o lopts = image_o opts"
  shows "determineImagePort_legacy h lopts = determineImagePort h opts"
  using assms by (simp add: determineImagePort_value determineImagePort_legacy_value)

theorem legacy_port_agrees_witness:
  "image_o legacy_web_opts = image_o (web_opts\<lparr>image_o := ''myorg/app''\<rparr>) \<and>
   determineImagePort_legacy md5_known legacy_web_opts =
     determineImagePort md5_known (web_opts\<lparr>image_o := ''myorg/app''\<rparr>) \<and>
   determineImagePort md5_known (web_opts\<lparr>image_o := ''myorg/app''\<rparr>) = Num 56003"
proof -
  have same: "image_o legacy_web_opts = image_o (web_opts\<lparr>image_o := ''myorg/app''\<rparr>)"
    by (simp add: legacy_web_opts_def)
  from legacy_port_agrees [OF same, of md5_known]
  show ?thesis by (simp add: same determineImagePort_value md5_known_top16)
qed

section \<open>Running programs\<close>

lemma outcome_cases:
  fixes p :: "(err + unit) \<times> event list \<times> 'w"
  obtains (failed) e evs w' where "p = (Inl e, evs, w')"
        | (ok) evs w' where "p = (Inr (), evs, w')"
  by (cases p; cases "fst p") auto

text \<open>The definitions a run on a concrete runtime unfolds.\<close>

lemmas run_defs =
  check_def pullImage_def getImageId_def stopContainer_def removeContainer_def runImage_def
  removeOldImages_def getContainerId_def awaitStream_def onProgress_def pull_opts_def
  bnd_def return_def throw_def try_finally_def try_catch_def emit_def console_log_def
  console_error_def docker_call_def truthy_def Let_def

lemmas sim_defs =
  sim_def web_opts_def host_outdated_def host_current_def host_pulled_def host_locked_def
  host_latest_def

section \<open>Image synchronisation\<close>

lemma onProgress_quiet: "filter lifecycle_or_gc (concat (map onProgress pevs)) = []"
  by (induction pevs) (simp_all add: onProgress_def)

lemma getImageId_run:
  "getImageId d opts w =
     (case listImages d w of
        (Inl e, w') \<Rightarrow> (Inl e, [Call ListImages], w')
      | (Inr images, w') \<Rightarrow>
          (Inr (map_option Id_i (find (\<lambda>img. image_o opts \<in> set (RepoTags img)) images)),
           [Call ListImages], w'))"
  by (simp add: getImageId_def bnd_def docker_call_def return_def
        split: prod.splits sum.splits option.splits)

lemma getImageId_quiet: "filter lifecycle_or_gc (fst (snd (getImageId d opts w))) = []"
  by (simp add: getImageId_run split: prod.splits sum.splits)

lemma awaitStream_quiet: "filter lifecycle_or_gc (fst (snd (awaitStream d strm w))) = []"
  by (simp add: awaitStream_def Let_def onProgress_quiet split: prod.splits option.splits)

lemma pullImage_quiet: "filter lifecycle_or_gc (fst (snd (pullImage d opts w))) = []"
proof -
  have g: "filter lifecycle_or_gc evs = []" if "getImageId d opts v = (r, evs, v')" for v r evs v'
    using getImageId_quiet [of d opts v] that by simp
  have a: "filter lifecycle_or_gc evs = []" if "awaitStream d strm v = (r, evs, v')" for strm v r evs v'
    using awaitStream_quiet [of d strm v] that by simp
  show ?thesis
    by (auto simp: pullImage_def try_finally_def bnd_def docker_call_def return_def console_log_def
          emit_def g a split: prod.splits sum.splits)
qed

lemma pullImage_run:
  "pullImage d opts w =
     (case getImageId d opts w of
        (Inl e, ev1, w1) \<Rightarrow> (Inl e, ev1 @ [Log ''pullImage: done''], w1)
      | (Inr previousId, ev1, w1) \<Rightarrow>
          (case pull d (image_o opts) (pull_opts opts) w1 of
             (Inl e, w2) \<Rightarrow>
               (Inl e, ev1 @ [Call (Pull (image_o opts) (pull_opts opts)), Log ''pullImage: done''], w2)
           | (Inr strm, w2) \<Rightarrow>
               (case awaitStream d strm w2 of
                  (Inl e, ev3, w3) \<Rightarrow>
                    (Inl e, ev1 @ Call (Pull (image_o opts) (pull_opts opts)) # ev3 @
                            [Log ''pullImage: done''], w3)
                | (Inr pevs, ev3, w3) \<Rightarrow>
                    (case getImageId d opts w3 of
                       (Inl e, ev4, w4) \<Rightarrow>
                         (Inl e, ev1 @ Call (Pull (image_o opts) (pull_opts opts)) # ev3 @ ev4 @
                                 [Log ''pullImage: done''], w4)
                     | (Inr currentId, ev4, w4) \<Rightarrow>
                         (Inr (currentId \<noteq> previousId),
                          ev1 @ Call (Pull (image_o opts) (pull_opts opts)) # ev3 @ ev4 @
                            [Log ''pullImage: done''], w4)))))"
  by (simp add: pullImage_def try_finally_def bnd_def docker_call_def return_def console_log_def
        emit_def split: prod.splits sum.splits)

lemma awaitStream_run:
  "followProgress d strm w = ((pevs, failure), w') \<Longrightarrow>
   awaitStream d strm w =
     ((case failure of Some e \<Rightarrow> Inl e | None \<Rightarrow> Inr pevs),
      Call (FollowProgress strm) # concat (map onProgress pevs), w')"
  by (simp add: awaitStream_def Let_def split: option.splits)

text \<open>
  C3. The five ways a sync can end. It returns a boolean only when both lookups, the
  pull and its progress stream succeeded, and the boolean says whether the id found
  after the pull differs from the id found before. A pull refused by the runtime, or a
  stream that ends in an error, makes the sync throw that error.
\<close>

theorem pullImage_outcomes:
  "(\<exists>e ev1 w1.
      getImageId d opts w = (Inl e, ev1, w1) \<and> fst (pullImage d opts w) = Inl e)
   \<or> (\<exists>previousId ev1 w1 e w2.
      getImageId d opts w = (Inr previousId, ev1, w1) \<and>
      pull d (image_o opts) (pull_opts opts) w1 = (Inl e, w2) \<and>
      fst (pullImage d opts w) = Inl e)
   \<or> (\<exists>previousId ev1 w1 strm w2 pevs e w3.
      getImageId d opts w = (Inr previousId, ev1, w1) \<and>
      pull d (image_o opts) (pull_opts opts) w1 = (Inr strm, w2) \<and>
      followProgress d strm w2 = ((pevs, Some e), w3) \<and>
      fst (pullImage d opts w) = Inl e)
   \<or> (\<exists>previousId ev1 w1 strm w2 pevs w3 e ev4 w4.
      getImageId d opts w = (Inr previousId, ev1, w1) \<and>
      pull d (image_o opts) (pull_opts opts) w1 = (Inr strm, w2) \<and>
      followProgress d strm w2 = ((pevs, None), w3) \<and>
      getImageId d opts w3 = (Inl e, ev4, w4) \<and>
      fst (pullImage d opts w) = Inl e)
   \<or> (\<exists>previousId ev1 w1 strm w2 pevs w3 currentId ev4 w4.
      getImageId d opts w = (Inr previousId, ev1, w1) \<and>
      pull d (image_o opts) (pull_opts opts) w1 = (Inr strm, w2) \<and>
      followProgress d strm w2 = ((pevs, None), w3) \<and>
      getImageId d opts w3 = (Inr currentId, ev4, w4) \<and>
      fst (pullImage d opts w) = Inr (currentId \<noteq> previousId))"
proof (cases "getImageId d opts w")
  case first: (fields r1 ev1 w1)
  show ?thesis
  proof (cases r1)
    case (Inl e)
    with first show ?thesis by (simp add: pullImage_run)
  next
    case prev: (Inr previousId)
    obtain r2 w2 where pl: "pull d (image_o opts) (pull_opts opts) w1 = (r2, w2)"
      by (cases "pull d (image_o opts) (pull_opts opts) w1")
    show ?thesis
    proof (cases r2)
      case (Inl e)
      with first prev pl show ?thesis by (simp add: pullImage_run)
    next
      case strm: (Inr strm)
      obtain pevs failure w3 where fp: "followProgress d strm w2 = ((pevs, failure), w3)"
        by (cases "followProgress d strm w2") auto
      show ?thesis
      proof (cases failure)
        case (Some e)
        with first prev pl strm fp show ?thesis
          by (simp add: pullImage_run awaitStream_run)
      next
        case None
        obtain r4 ev4 w4 where second: "getImageId d opts w3 = (r4, ev4, w4)"
          by (cases "getImageId d opts w3")
        show ?thesis
        proof (cases r4)
          case (Inl e)
          with first prev pl strm fp None second show ?thesis
            by (simp add: pullImage_run awaitStream_run)
        next
          case (Inr currentId)
          with first prev pl strm fp None second show ?thesis
            by (simp add: pullImage_run awaitStream_run)
        qed
      qed
    qed
  qed
qed

section \<open>Garbage collection of images\<close>

lemma remove_each_run:
  "remove_each d imgs w =
     (Inr (), concat (map removal_events (zip imgs (removal_answers d imgs w))),
      removal_world d imgs w)"
proof (induction imgs arbitrary: w)
  case Nil
  show ?case by (simp add: return_def)
next
  case (Cons img rest)
  obtain r w' where step: "removeImage d (Id_i img) w = (r, w')"
    by (cases "removeImage d (Id_i img) w")
  show ?case
    by (cases r)
       (simp_all add: step Cons.IH bnd_def try_catch_def docker_call_def console_log_def
          console_error_def emit_def removal_events_def)
qed

lemma length_removal_answers: "length (removal_answers d imgs w) = length imgs"
  by (induction imgs arbitrary: w) (simp_all split: prod.splits)

lemma removal_requests_events:
  "length rs = length imgs \<Longrightarrow>
   removal_requests (concat (map removal_events (zip imgs rs)) @ evs) =
     map Id_i imgs @ removal_requests evs"
proof (induction imgs arbitrary: rs)
  case Nil
  then show ?case by simp
next
  case (Cons img rest)
  then obtain r rs' where rs: "rs = r # rs'" by (cases rs) auto
  with Cons show ?case
    by (cases r) (simp_all add: removal_events_def)
qed

text \<open>
  C7. Once the images are listed, the collection succeeds whatever the runtime answers
  to the removals. It requests the removal of each image whose tags are exactly
  \<^verbatim>\<open><none>:<none>\<close>, in the order listed, and of no other image; after each request it
  prints either the success line or the error, and goes on with the next image. The
  world changes through these removals only.
\<close>

theorem removeOldImages_selective:
  assumes "listImages d w = (Inr images, w0)"
  shows "removeOldImages d w =
           (Inr (),
            Call ListImages #
              concat (map removal_events
                        (zip (dangling images) (removal_answers d (dangling images) w0))) @
              [Log ''removeOldImages: done''],
            removal_world d (dangling images) w0) \<and>
         removal_requests (fst (snd (removeOldImages d w))) = map Id_i (dangling images)"
proof -
  have run: "removeOldImages d w =
           (Inr (),
            Call ListImages #
              concat (map removal_events
                        (zip (dangling images) (removal_answers d (dangling images) w0))) @
              [Log ''removeOldImages: done''],
            removal_world d (dangling images) w0)"
    using assms
    by (simp add: removeOldImages_def try_finally_def bnd_def docker_call_def console_log_def
          emit_def remove_each_run dangling_def)
  show ?thesis
    by (simp add: run removal_requests_events length_removal_answers)
qed

text \<open>One removal is refused; the next one is still made.\<close>

lemma list_locked:
  "listImages sim host_locked =
     (Inr [\<lparr>Id_i = ''sha256:new'', RepoTags = [''myorg/app:v1'']\<rparr>,
           \<lparr>Id_i = ''sha256:old'', RepoTags = [''<none>:<none>'']\<rparr>,
           \<lparr>Id_i = ''sha256:stale'', RepoTags = [''<none>:<none>'']\<rparr>,
           \<lparr>Id_i = ''sha256:db'', RepoTags = [''postgres:9'', ''postgres:latest'']\<rparr>],
      host_locked)"
  by (simp add: sim_defs)

theorem removeOldImages_selective_witness:
  "listImages sim host_locked =
     (Inr [\<lparr>Id_i = ''sha256:new'', RepoTags = [''myorg/app:v1'']\<rparr>,
           \<lparr>Id_i = ''sha256:old'', RepoTags = [''<none>:<none>'']\<rparr>,
           \<lparr>Id_i = ''sha256:stale'', RepoTags = [''<none>:<none>'']\<rparr>,
           \<lparr>Id_i = ''sha256:db'', RepoTags = [''postgres:9'', ''postgres:latest'']\<rparr>],
      host_locked) \<and>
   fst (removeOldImages sim host_locked) = Inr () \<and>
   fst (snd (removeOldImages sim host_locked)) =
     [Call ListImages,
      Call (RemoveImage ''sha256:old''), LogError (RuntimeFailure ''image is in use''),
      Call (RemoveImage ''sha256:stale''), Log ''Image sha256:stale removed'',
      Log ''removeOldImages: done''] \<and>
   removal_requests (fst (snd (removeOldImages sim host_locked))) =
     [''sha256:old'', ''sha256:stale''] \<and>
   sim_images (snd (snd (removeOldImages sim host_locked))) =
     [\<lparr>Id_i = ''sha256:new'', RepoTags = [''myorg/app:v1'']\<rparr>,
      \<lparr>Id_i = ''sha256:old'', RepoTags = [''<none>:<none>'']\<rparr>,
      \<lparr>Id_i = ''sha256:db'', RepoTags = [''postgres:9'', ''postgres:latest'']\<rparr>]"
  using removeOldImages_selective [OF list_locked]
  by (simp add: run_defs sim_defs dangling_def removal_events_def)

section \<open>The requests of each step\<close>

lemma lifecycle_ranks_append [simp]:
  "lifecycle_ranks (xs @ ys) = lifecycle_ranks xs @ lifecycle_ranks ys"
  by (simp add: lifecycle_ranks_def)

lemma lifecycle_ranks_quiet: "filter lifecycle_or_gc evs = [] \<Longrightarrow> lifecycle_ranks evs = []"
  by (simp add: lifecycle_ranks_def)

lemma getContainerId_run:
  "getContainerId d nm w =
     (case listContainers d True w of
        (Inl e, w') \<Rightarrow> (Inl e, [Call (ListContainers True)], w')
      | (Inr containers, w') \<Rightarrow>
          (Inr (map_option Id_c (find (\<lambda>c. (''/'' @ nm) \<in> set (Names c)) containers)),
           [Call (ListContainers True)], w'))"
  by (simp add: getContainerId_def bnd_def docker_call_def return_def
        split: prod.splits sum.splits option.splits)

lemma stopContainer_ranks:
  "lifecycle_ranks (fst (snd (stopContainer d opts w))) \<in> {[], [1]}"
  by (auto simp: stopContainer_def getContainerId_run try_finally_def bnd_def docker_call_def
        return_def console_log_def emit_def lifecycle_ranks_def
        split: prod.splits sum.splits)

lemma removeContainer_ranks:
  "lifecycle_ranks (fst (snd (removeContainer d opts w))) \<in> {[], [2]}"
  by (auto simp: removeContainer_def getContainerId_run try_finally_def bnd_def docker_call_def
        return_def console_log_def emit_def lifecycle_ranks_def
        split: prod.splits sum.splits)

lemma create_start_run:
  "try_finally
     (bnd (docker_call (CreateContainer copts) (createContainer d copts))
        (\<lambda>container. docker_call (Start container sopts) (start d container sopts)))
     (console_log line) w =
   (case createContainer d copts w of
      (Inl e, w1) \<Rightarrow> (Inl e, [Call (CreateContainer copts), Log line], w1)
    | (Inr container, w1) \<Rightarrow>
        (case start d container sopts w1 of
           (r, w2) \<Rightarrow>
             (r, [Call (CreateContainer copts), Call (Start container sopts), Log line], w2)))"
  by (simp add: try_finally_def bnd_def docker_call_def console_log_def emit_def
        split: prod.splits sum.splits)

lemma runImage_detach_on:
  assumes "detach opts"
  shows "\<exists>copts sopts.
           runImage d opts =
             try_finally
               (bnd (docker_call (CreateContainer copts) (createContainer d copts))
                  (\<lambda>container. docker_call (Start container sopts) (start d container sopts)))
               (console_log ''runImage: done'')"
  unfolding runImage_def Let_def using assms
  by (simp only: not_True_eq_False if_False) blast

lemma runImage_detach_off:
  "\<not> detach opts \<Longrightarrow>
   runImage d opts w =
     (Inl (Error ''non detached mode is unsupported''), [Log ''runImage: done''], w)"
  by (simp add: runImage_def Let_def try_finally_def throw_def console_log_def emit_def)

lemma runImage_ranks:
  "lifecycle_ranks (fst (snd (runImage d opts w))) \<in> {[], [3], [3, 4]}"
proof (cases "detach opts")
  case True
  then obtain copts sopts where
    "runImage d opts =
       try_finally
         (bnd (docker_call (CreateContainer copts) (createContainer d copts))
            (\<lambda>container. docker_call (Start container sopts) (start d container sopts)))
         (console_log ''runImage: done'')"
    using runImage_detach_on by blast
  then show ?thesis
    by (simp add: create_start_run lifecycle_ranks_def split: prod.splits sum.splits)
next
  case False
  then show ?thesis by (simp add: runImage_detach_off lifecycle_ranks_def)
qed

lemma runImage_success_ranks:
  assumes "runImage d opts w = (Inr (), evs, w')"
  shows "lifecycle_ranks evs = [3, 4]"
proof (cases "detach opts")
  case True
  then obtain copts sopts where
    "runImage d opts =
       try_finally
         (bnd (docker_call (CreateContainer copts) (createContainer d copts))
            (\<lambda>container. docker_call (Start container sopts) (start d container sopts)))
         (console_log ''runImage: done'')"
    using runImage_detach_on by blast
  with assms show ?thesis
    by (auto simp: create_start_run lifecycle_ranks_def split: prod.splits sum.splits)
next
  case False
  with assms show ?thesis by (simp add: runImage_detach_off)
qed

lemma removal_events_ranks:
  "length rs = length imgs \<Longrightarrow>
   lifecycle_ranks (concat (map removal_events (zip imgs rs))) = replicate (length imgs) 5"
proof (induction imgs arbitrary: rs)
  case Nil
  then show ?case by (simp add: lifecycle_ranks_def)
next
  case (Cons img rest)
  then obtain r rs' where rs: "rs = r # rs'" by (cases rs) auto
  with Cons show ?case
    by (cases r) (simp_all add: removal_events_def lifecycle_ranks_def)
qed

lemma removeOldImages_ranks:
  "\<exists>n. lifecycle_ranks (fst (snd (removeOldImages d w))) = replicate n 5"
proof (cases "listImages d w")
  case (Pair r w0)
  show ?thesis
  proof (cases r)
    case (Inl e)
    with Pair have "lifecycle_ranks (fst (snd (removeOldImages d w))) = replicate 0 5"
      by (simp add: removeOldImages_def try_finally_def bnd_def docker_call_def console_log_def
            emit_def lifecycle_ranks_def)
    then show ?thesis ..
  next
    case (Inr images)
    with Pair have "lifecycle_ranks (fst (snd (removeOldImages d w))) =
        replicate (length (dangling images)) 5"
      using removal_events_ranks [of "removal_answers d (dangling images) w0" "dangling images"]
      by (simp add: removeOldImages_def try_finally_def bnd_def docker_call_def console_log_def
            emit_def remove_each_run dangling_def [symmetric] length_removal_answers
            lifecycle_ranks_def)
    then show ?thesis ..
  qed
qed

section \<open>The reconciliation pass\<close>

lemma ranks_in_order:
  assumes "a \<in> {[], [1]}" "b \<in> {[], [2]}" "c \<in> {[], [3], [3, 4]}"
  shows "sorted (a @ b @ c @ replicate n (5::nat))"
  using assms by (auto simp: sorted_append)

text \<open>
  C1. When the sync reports a change, a pass runs stopContainer, removeContainer,
  runImage and removeOldImages in this order, each from the world the previous one
  left. Either all four succeed, or the first one that throws ends the pass: the pass
  fails with that error, its events are those up to the failing step, and the world
  is the one that step left. Seen from the runtime, the requests of the pass that
  change containers or remove images come in the order stop, remove, create, start,
  image removals.
\<close>

theorem check_changed_sequence:
  assumes "pullImage d opts w = (Inr True, ev1, w1)"
  shows
    "((\<exists>ev2 w2 ev3 w3 ev4 w4 ev5 w5.
        stopContainer d opts w1 = (Inr (), ev2, w2) \<and>
        removeContainer d opts w2 = (Inr (), ev3, w3) \<and>
        runImage d opts w3 = (Inr (), ev4, w4) \<and>
        removeOldImages d w4 = (Inr (), ev5, w5) \<and>
        check d opts w = (Inr (), ev1 @ ev2 @ ev3 @ ev4 @ ev5, w5))
     \<or> (\<exists>e ev2 w2.
        stopContainer d opts w1 = (Inl e, ev2, w2) \<and>
        check d opts w = (Inl e, ev1 @ ev2, w2))
     \<or> (\<exists>e ev2 w2 ev3 w3.
        stopContainer d opts w1 = (Inr (), ev2, w2) \<and>
        removeContainer d opts w2 = (Inl e, ev3, w3) \<and>
        check d opts w = (Inl e, ev1 @ ev2 @ ev3, w3))
     \<or> (\<exists>e ev2 w2 ev3 w3 ev4 w4.
        stopContainer d opts w1 = (Inr (), ev2, w2) \<and>
        removeContainer d opts w2 = (Inr (), ev3, w3) \<and>
        runImage d opts w3 = (Inl e, ev4, w4) \<and>
        check d opts w = (Inl e, ev1 @ ev2 @ ev3 @ ev4, w4))
     \<or> (\<exists>e ev2 w2 ev3 w3 ev4 w4 ev5 w5.
        stopContainer d opts w1 = (Inr (), ev2, w2) \<and>
        removeContainer d opts w2 = (Inr (), ev3, w3) \<and>
        runImage d opts w3 = (Inr (), ev4, w4) \<and>
        removeOldImages d w4 = (Inl e, ev5, w5) \<and>
        check d opts w = (Inl e, ev1 @ ev2 @ ev3 @ ev4 @ ev5, w5))) \<and>
     sorted (lifecycle_ranks (fst (snd (check d opts w))))"
proof -
  have q1: "lifecycle_ranks ev1 = []"
    using pullImage_quiet [of d opts w] assms by (simp add: lifecycle_ranks_quiet)
  have r2: "lifecycle_ranks evs \<in> {[], [1]}" if "stopContainer d opts v = (r, evs, v')" for v r evs v'
    using stopContainer_ranks [of d opts v] that by simp
  have r3: "lifecycle_ranks evs \<in> {[], [2]}" if "removeContainer d opts v = (r, evs, v')" for v r evs v'
    using removeContainer_ranks [of d opts v] that by simp
  have r4: "lifecycle_ranks evs \<in> {[], [3], [3, 4]}" if "runImage d opts v = (r, evs, v')" for v r evs v'
    using runImage_ranks [of d opts v] that by simp
  have r5: "\<exists>n. lifecycle_ranks evs = replicate n 5" if "removeOldImages d v = (r, evs, v')" for v r evs v'
    using removeOldImages_ranks [of d v] that by simp
  show ?thesis
  proof (cases "stopContainer d opts w1" rule: outcome_cases)
    case (failed e ev2 w2)
    have run: "check d opts w = (Inl e, ev1 @ ev2, w2)"
      using assms failed by (simp add: check_def bnd_def)
    have "sorted (lifecycle_ranks ev2 @ [] @ [] @ replicate 0 5)"
      by (rule ranks_in_order [OF r2 [OF failed]]) simp_all
    with run failed show ?thesis by (simp add: q1)
  next
    case stopped: (ok ev2 w2)
    show ?thesis
    proof (cases "removeContainer d opts w2" rule: outcome_cases)
      case (failed e ev3 w3)
      have run: "check d opts w = (Inl e, ev1 @ ev2 @ ev3, w3)"
        using assms stopped failed by (simp add: check_def bnd_def)
      have "sorted (lifecycle_ranks ev2 @ lifecycle_ranks ev3 @ [] @ replicate 0 5)"
        by (rule ranks_in_order [OF r2 [OF stopped] r3 [OF failed]]) simp
      with run stopped failed show ?thesis by (simp add: q1)
    next
      case removed: (ok ev3 w3)
      show ?thesis
      proof (cases "runImage d opts w3" rule: outcome_cases)
        case (failed e ev4 w4)
        have run: "check d opts w = (Inl e, ev1 @ ev2 @ ev3 @ ev4, w4)"
          using assms stopped removed failed by (simp add: check_def bnd_def)
        have "sorted (lifecycle_ranks ev2 @ lifecycle_ranks ev3 @ lifecycle_ranks ev4 @
                      replicate 0 5)"
          by (rule ranks_in_order [OF r2 [OF stopped] r3 [OF removed] r4 [OF failed]])
        with run stopped removed failed show ?thesis by (simp add: q1)
      next
        case started: (ok ev4 w4)
        obtain r ev5 w5 where gc: "removeOldImages d w4 = (r, ev5, w5)"
          by (cases "removeOldImages d w4")
        obtain n where n: "lifecycle_ranks ev5 = replicate n 5"
          using r5 [OF gc] by blast
        have run: "check d opts w = (r, ev1 @ ev2 @ ev3 @ ev4 @ ev5, w5)"
          using assms stopped removed started gc by (simp add: check_def bnd_def)
        have order: "sorted (lifecycle_ranks ev2 @ lifecycle_ranks ev3 @ lifecycle_ranks ev4 @
                      replicate n 5)"
          by (rule ranks_in_order [OF r2 [OF stopped] r3 [OF removed] r4 [OF started]])
        show ?thesis
        proof (cases r)
          case (Inl e)
          with run stopped removed started gc order n show ?thesis by (simp add: q1)
        next
          case (Inr u)
          with run stopped removed started gc order n show ?thesis by (simp add: q1)
        qed
      qed
    qed
  qed
qed

text \<open>On the outdated host the whole sequence runs and succeeds.\<close>

lemma pull_outdated:
  "pullImage sim web_opts host_outdated =
     (Inr True,
      [Call ListImages, Call (Pull ''myorg/app:v1'' \<lparr>authconfig = None\<rparr>),
       Call (FollowProgress (Stream 0)), Log ''Pulling from registry'', Call ListImages,
       Log ''pullImage: done''],
      host_pulled)"
  by (simp add: run_defs sim_defs)

theorem check_changed_sequence_witness:
  "pullImage sim web_opts host_outdated =
     (Inr True,
      [Call ListImages, Call (Pull ''myorg/app:v1'' \<lparr>authconfig = None\<rparr>),
       Call (FollowProgress (Stream 0)), Log ''Pulling from registry'', Call ListImages,
       Log ''pullImage: done''],
      host_pulled) \<and>
   fst (stopContainer sim web_opts host_pulled) = Inr () \<and>
   fst (check sim web_opts host_outdated) = Inr () \<and>
   fst (snd (check sim web_opts host_outdated)) =
     [Call ListImages, Call (Pull ''myorg/app:v1'' \<lparr>authconfig = None\<rparr>),
      Call (FollowProgress (Stream 0)), Log ''Pulling from registry'', Call ListImages,
      Log ''pullImage: done'',
      Call (ListContainers True), Call (Inspect ''c-old''), Call (Stop ''c-old''),
      Log ''stopContainer: done'',
      Call (ListContainers True), Call (Remove ''c-old''), Log ''removeContainer: done'',
      Call (CreateContainer
              \<lparr>Image_c = ''myorg/app:v1'', name_c = Some ''web'', Env = None, Tty = None\<rparr>),
      Call (Start ''c-new''
              \<lparr>NetworkMode = None, Binds = None, RestartPolicy = Some \<lparr>Name = ''always''\<rparr>\<rparr>),
      Log ''runImage: done'',
      Call ListImages, Call (RemoveImage ''sha256:old''), Log ''Image sha256:old removed'',
      Call (RemoveImage ''sha256:stale''), Log ''Image sha256:stale removed'',
      Log ''removeOldImages: done'']"
  using check_changed_sequence [OF pull_outdated]
  by (simp add: pull_outdated) (simp add: run_defs sim_defs)

text \<open>When the daemon cannot create the container, the pass ends there: no image is collected.\<close>

lemma check_aborts_when_create_fails:
  "check sim web_opts (host_outdated\<lparr>sim_create_fails := True\<rparr>) =
     (Inl (RuntimeFailure ''cannot create container''),
      [Call ListImages, Call (Pull ''myorg/app:v1'' \<lparr>authconfig = None\<rparr>),
       Call (FollowProgress (Stream 0)), Log ''Pulling from registry'', Call ListImages,
       Log ''pullImage: done'',
       Call (ListContainers True), Call (Inspect ''c-old''), Call (Stop ''c-old''),
       Log ''stopContainer: done'',
       Call (ListContainers True), Call (Remove ''c-old''), Log ''removeContainer: done'',
       Call (CreateContainer
               \<lparr>Image_c = ''myorg/app:v1'', name_c = Some ''web'', Env = None, Tty = None\<rparr>),
       Log ''runImage: done''],
      host_pulled\<lparr>sim_containers := [], sim_create_fails := True\<rparr>)"
  by (simp add: run_defs sim_defs)

lemma check_unchanged_run:
  "pullImage d opts w = (Inr False, ev1, w1) \<Longrightarrow> check d opts w = (Inr (), ev1, w1)"
  by (simp add: check_def bnd_def return_def)

text \<open>
  C2. When the sync reports no change, the pass ends where the sync ended: it sends
  nothing more, the world is the one the pull left, and nothing in the whole pass
  stops, removes, creates or starts a container or removes an image.
\<close>

theorem check_unchanged_noop:
  assumes "pullImage d opts w = (Inr False, ev1, w1)"
  shows "check d opts w = (Inr (), ev1, w1) \<and> filter lifecycle_or_gc ev1 = []"
proof
  show "check d opts w = (Inr (), ev1, w1)"
    using assms by (simp add: check_def bnd_def return_def)
  show "filter lifecycle_or_gc ev1 = []"
    using pullImage_quiet [of d opts w] assms by simp
qed

text \<open>On the up-to-date host the pass is the sync and nothing else.\<close>

lemma pull_current:
  "pullImage sim web_opts host_current =
     (Inr False,
      [Call ListImages, Call (Pull ''myorg/app:v1'' \<lparr>authconfig = None\<rparr>),
       Call (FollowProgress (Stream 0)), Log ''Pulling from registry'', Call ListImages,
       Log ''pullImage: done''],
      host_current)"
  by (simp add: run_defs sim_defs)

theorem check_unchanged_noop_witness:
  "pullImage sim web_opts host_current =
     (Inr False,
      [Call ListImages, Call (Pull ''myorg/app:v1'' \<lparr>authconfig = None\<rparr>),
       Call (FollowProgress (Stream 0)), Log ''Pulling from registry'', Call ListImages,
       Log ''pullImage: done''],
      host_current) \<and>
   check sim web_opts host_current =
     (Inr (),
      [Call ListImages, Call (Pull ''myorg/app:v1'' \<lparr>authconfig = None\<rparr>),
       Call (FollowProgress (Stream 0)), Log ''Pulling from registry'', Call ListImages,
       Log ''pullImage: done''],
      host_current)"
  using check_unchanged_noop [OF pull_current] by (simp add: pull_current)

lemma getImageId_absent:
  assumes "listImages d w = (Inr images, w')"
      and "\<forall>img \<in> set images. image_o opts \<notin> set (RepoTags img)"
  shows "getImageId d opts w = (Inr None, [Call ListImages], w')"
proof -
  have "find (\<lambda>img. image_o opts \<in> set (RepoTags img)) images = None"
    using assms(2) by (simp add: find_None_iff)
  with assms(1) show ?thesis by (simp add: getImageId_run)
qed

text \<open>
  C10. If no listed image carries the configured ref among its tags, neither before
  nor after a pull that succeeds, the sync reports no change: the pass succeeds
  without stopping, removing, creating or starting a container and without removing
  an image, and leaves the world as the second listing left it.
\<close>

theorem absent_ref_reports_unchanged:
  assumes "listImages d w = (Inr images0, w1)"
      and "pull d (image_o opts) (pull_opts opts) w1 = (Inr strm, w2)"
      and "followProgress d strm w2 = ((pevs, None), w3)"
      and "listImages d w3 = (Inr images1, w4)"
      and "\<forall>img \<in> set images0. image_o opts \<notin> set (RepoTags img)"
      and "\<forall>img \<in> set images1. image_o opts \<notin> set (RepoTags img)"
  shows "fst (pullImage d opts w) = Inr False \<and>
         fst (check d opts w) = Inr () \<and>
         snd (snd (check d opts w)) = w4 \<and>
         filter lifecycle_or_gc (fst (snd (check d opts w))) = []"
proof -
  have before: "getImageId d opts w = (Inr None, [Call ListImages], w1)"
    using assms(1,5) by (rule getImageId_absent)
  have after: "getImageId d opts w3 = (Inr None, [Call ListImages], w4)"
    using assms(4,6) by (rule getImageId_absent)
  obtain ev1 where sync: "pullImage d opts w = (Inr False, ev1, w4)"
    using before after assms(2,3) by (simp add: pullImage_run awaitStream_run)
  have quiet: "filter lifecycle_or_gc ev1 = []"
    using pullImage_quiet [of d opts w] sync by simp
  show ?thesis
    by (simp add: sync check_unchanged_run [OF sync] quiet)
qed

text \<open>
  The bare ref \<^verbatim>\<open>myorg/app\<close> on a host whose image is tagged \<^verbatim>\<open>myorg/app:latest\<close>: the
  pull brings a newer build, and the old container keeps running.
\<close>

theorem absent_ref_reports_unchanged_witness:
  "fst (pullImage sim (web_opts\<lparr>image_o := ''myorg/app''\<rparr>) host_latest) = Inr False \<and>
   fst (check sim (web_opts\<lparr>image_o := ''myorg/app''\<rparr>) host_latest) = Inr () \<and>
   sim_images (snd (snd (check sim (web_opts\<lparr>image_o := ''myorg/app''\<rparr>) host_latest))) =
     [\<lparr>Id_i = ''sha256:newer'', RepoTags = [''myorg/app:latest'']\<rparr>,
      \<lparr>Id_i = ''sha256:new'', RepoTags = [''<none>:<none>'']\<rparr>] \<and>
   sim_containers (snd (snd (check sim (web_opts\<lparr>image_o := ''myorg/app''\<rparr>) host_latest))) =
     [(\<lparr>Id_c = ''c-old'', Names = [''/web'']\<rparr>, True)]"
proof -
  let ?opts = "web_opts\<lparr>image_o := ''myorg/app''\<rparr>"
  let ?w3 = "host_latest\<lparr>sim_images := sim_incoming host_latest\<rparr>"
  have l0: "listImages sim host_latest = (Inr (sim_images host_latest), host_latest)"
    by (simp add: sim_def)
  have pl: "pull sim (image_o ?opts) (pull_opts ?opts) host_latest = (Inr (Stream 0), host_latest)"
    by (simp add: sim_def)
  have fp: "followProgress sim (Stream 0) host_latest =
              (([\<lparr>progressDetail = False, status = Some ''Pulling from registry''\<rparr>,
                 \<lparr>progressDetail = True, status = Some ''Downloading''\<rparr>], None), ?w3)"
    by (simp add: sim_def)
  have l1: "listImages sim ?w3 = (Inr (sim_incoming host_latest), ?w3)"
    by (simp add: sim_def)
  have a0: "\<forall>img \<in> set (sim_images host_latest). image_o ?opts \<notin> set (RepoTags img)"
    by (simp add: host_latest_def)
  have a1: "\<forall>img \<in> set (sim_incoming host_latest). image_o ?opts \<notin> set (RepoTags img)"
    by (simp add: host_latest_def)
  from absent_ref_reports_unchanged [OF l0 pl fp l1 a0 a1]
  show ?thesis by (simp add: host_latest_def)
qed

section \<open>The webhook\<close>

lemma request_post_run:
  "request_post d callbackURL st w =
     (Inr (), callback_events d callbackURL st w, snd (post d callbackURL st w))"
  by (simp add: request_post_def callback_events_def split: prod.splits)

text \<open>
  What the handler does with a POST to the webhook path whose body has a
  \<^verbatim>\<open>repository\<close> object, for any runtime: it answers 204; when the repository name
  differs from what \<open>getImageName\<close> returns it runs no pass and posts \<^verbatim>\<open>error\<close>;
  otherwise it runs one pass and posts its outcome.
\<close>

lemma webhook_body_present:
  assumes "req_method req = ''POST''"
      and "req_url req = WEBHOOK_URL"
      and "repository (req_body req) = Some repo"
  shows "fst (webhook d opts req w) = Inr (Status 204) \<and>
         (repo_name repo \<noteq> getImageName opts \<longrightarrow>
            (\<exists>msg. webhook d opts req w =
               (Inr (Status 204),
                LogError (Error msg) # callback_events d (callback_url (req_body req)) ''error'' w,
                snd (post d (callback_url (req_body req)) ''error'' w)))) \<and>
         (repo_name repo = getImageName opts \<longrightarrow>
            (\<exists>r evs w1. check d opts w = (r, evs, w1) \<and>
               fst (snd (webhook d opts req w)) =
                 evs @ (case r of Inl e \<Rightarrow> [LogError e] | Inr u \<Rightarrow> []) @
                 callback_events d (callback_url (req_body req))
                   (case r of Inl e \<Rightarrow> ''error'' | Inr u \<Rightarrow> ''success'') w1))"
proof (cases "repo_name repo = getImageName opts")
  case False
  with assms show ?thesis
    by (simp add: webhook_def Let_def bnd_def return_def console_error_def emit_def
          request_post_run)
next
  case True
  obtain r evs w1 where pass: "check d opts w = (r, evs, w1)"
    by (cases "check d opts w")
  show ?thesis
  proof (cases r)
    case (Inl e)
    with assms True pass show ?thesis
      by (simp add: webhook_def Let_def bnd_def return_def try_catch_def console_error_def
            emit_def request_post_run)
  next
    case (Inr u)
    with assms True pass show ?thesis
      by (simp add: webhook_def Let_def bnd_def return_def try_catch_def console_error_def
            emit_def request_post_run)
  qed
qed

text \<open>
  C5. The guard is to refuse a push whose repository differs from the repository of
  the configured ref, and every POST to the path is to be answered with 204. Two
  requests show that the handler misses both. \<open>getImageName\<close> cuts the ref at its
  first colon, so for \<^verbatim>\<open>localhost:5000/app:v1\<close> it returns \<^verbatim>\<open>localhost\<close>: a push for the
  repository \<^verbatim>\<open>localhost\<close> runs a whole pass and is reported as \<^verbatim>\<open>success\<close>, and a push
  for \<^verbatim>\<open>localhost:5000/app\<close> is refused. A body without a \<^verbatim>\<open>repository\<close> object makes
  the handler throw where it reads the name, outside its try block: no status 204 is
  set and nothing is posted to the callback URL.
\<close>

theorem webhook_guard_misses:
  "getImageName registry_opts = ''localhost'' \<and>
   webhook sim registry_opts (push_request ''localhost'') host_registry =
     (Inr (Status 204),
      [Call ListImages, Call (Pull ''localhost:5000/app:v1'' \<lparr>authconfig = None\<rparr>),
       Call (FollowProgress (Stream 0)), Log ''Pulling from registry'', Call ListImages,
       Log ''pullImage: done'',
       Call (ListContainers True), Call (Inspect ''c-old''), Call (Stop ''c-old''),
       Log ''stopContainer: done'',
       Call (ListContainers True), Call (Remove ''c-old''), Log ''removeContainer: done'',
       Call (CreateContainer
               \<lparr>Image_c = ''localhost:5000/app:v1'', name_c = Some ''web'', Env = None,
                  Tty = None\<rparr>),
       Call (Start ''c-new''
               \<lparr>NetworkMode = None, Binds = None, RestartPolicy = Some \<lparr>Name = ''always''\<rparr>\<rparr>),
       Log ''runImage: done'',
       Call ListImages, Call (RemoveImage ''sha256:old''), Log ''Image sha256:old removed'',
       Log ''removeOldImages: done'',
       HttpPost ''http://hub.example/callback'' ''success''],
      \<lparr>sim_images = [\<lparr>Id_i = ''sha256:new'', RepoTags = [''localhost:5000/app:v1'']\<rparr>],
         sim_incoming = sim_incoming host_registry,
         sim_containers = [(\<lparr>Id_c = ''c-new'', Names = [''/web'']\<rparr>, True)],
         sim_locked = [], sim_create_fails = False\<rparr>) \<and>
   webhook sim registry_opts (push_request ''localhost:5000/app'') host_registry =
     (Inr (Status 204),
      [LogError (Error (''webhook triggered for a different image name ('' @ [CHR 0x22] @
                        ''localhost:5000/app'' @ [CHR 0x22] @ '' instead of '' @ [CHR 0x22] @
                        ''localhost'' @ [CHR 0x22] @ '')'')),
       HttpPost ''http://hub.example/callback'' ''error''],
      host_registry) \<and>
   webhook sim web_opts bare_request host_outdated =
     (Inl (TypeError ''Cannot read property repo_name of undefined''), [], host_outdated)"
  by (simp add: webhook_def push_request_def bare_request_def registry_opts_def
        host_registry_def getImageName_def substr_def request_post_def WEBHOOK_URL_def
        run_defs sim_defs)

section \<open>The detach flag\<close>

text \<open>
  A command line without the flag is refused before the program runs. With the flag
  given as false the program runs; when the sync then reports a change and the old
  container has been stopped and removed, the startup fails in runImage, after these
  steps, whose events and effects stay.
\<close>

lemma startup_requires_detach:
  assumes "arg_name a = Some n" and "arg_detach a = None"
  shows "docker_runner d h a w = (UsageExit ''detach argument is required'', [], w)"
  using assms by (simp add: docker_runner_def parse_arguments_def)

lemma main_detach_off:
  assumes "\<not> detach opts"
      and "pullImage d opts w = (Inr True, ev1, w1)"
      and "stopContainer d opts w1 = (Inr (), ev2, w2)"
      and "removeContainer d opts w2 = (Inr (), ev3, w3)"
  shows "main d h opts w =
           (Inl (Error ''non detached mode is unsupported''),
            ev1 @ ev2 @ ev3 @ [Log ''runImage: done''], w3)"
  using assms by (simp add: runImage_detach_off main_def check_def bnd_def)

text \<open>
  C6. A disabled detach flag is to end the startup before the runtime is contacted.
  That holds when the flag is left out: the parser refuses the command line and no
  request is sent. It fails for \<^verbatim>\<open>--no-detach\<close>, which the parser accepts: on the
  outdated host the startup pulls the image, stops and removes the running container
  and only then fails, so the host is left without its container and the process
  only prints the error; on the up-to-date host the same startup does not fail at
  all and goes on to listen for pushes.
\<close>

theorem detach_false_fails_after_teardown:
  "docker_runner sim md5_known (web_args None) host_outdated =
     (UsageExit ''detach argument is required'', [], host_outdated) \<and>
   parse_arguments (web_args (Some False)) = Inr (web_opts\<lparr>detach := False\<rparr>) \<and>
   docker_runner sim md5_known (web_args (Some False)) host_outdated =
     (Ran,
      [Call ListImages, Call (Pull ''myorg/app:v1'' \<lparr>authconfig = None\<rparr>),
       Call (FollowProgress (Stream 0)), Log ''Pulling from registry'', Call ListImages,
       Log ''pullImage: done'',
       Call (ListContainers True), Call (Inspect ''c-old''), Call (Stop ''c-old''),
       Log ''stopContainer: done'',
       Call (ListContainers True), Call (Remove ''c-old''), Log ''removeContainer: done'',
       Log ''runImage: done'',
       LogError (Error ''non detached mode is unsupported'')],
      host_pulled\<lparr>sim_containers := []\<rparr>) \<and>
   docker_runner sim md5_known (web_args (Some False)) host_current =
     (Ran,
      [Call ListImages, Call (Pull ''myorg/app:v1'' \<lparr>authconfig = None\<rparr>),
       Call (FollowProgress (Stream 0)), Log ''Pulling from registry'', Call ListImages,
       Log ''pullImage: done'',
       Call (ListContainers True),
       Listen (Num 55643),
       Log ''listenImagePush: running on http://<domain.name>:55643/v1/docker-images/push''],
      host_current)"
  by (simp add: docker_runner_def parse_arguments_def web_args_def run_def main_def
        listenImagePush_def determineImagePort_value md5_known_top16 WEBHOOK_URL_def
        run_defs sim_defs)

section \<open>The default tag\<close>

text \<open>
  C8. The ref \<^verbatim>\<open>myorg/app\<close> has no tag. On a host whose image is tagged
  \<^verbatim>\<open>myorg/app:latest\<close> the runtime-API variant finds no image for it, though it finds
  the image for \<^verbatim>\<open>myorg/app:latest\<close>; the legacy variant reads the tag as \<^verbatim>\<open>latest\<close>
  and finds the image.
\<close>

theorem getImageId_ignores_default_tag:
  "indexOf ''myorg/app'' CHR '':'' = -1 \<and>
   fst (getImageId sim (web_opts\<lparr>image_o := ''myorg/app''\<rparr>) host_latest) = Inr None \<and>
   fst (getImageId sim (web_opts\<lparr>image_o := ''myorg/app:latest''\<rparr>) host_latest) =
     Inr (Some ''sha256:new'') \<and>
   getImageTag legacy_web_opts = ''latest'' \<and>
   fst (getImageId_legacy cli legacy_web_opts listing_latest) = Inr (Some ''sha256:new'')"
  by (simp add: getImageId_legacy_def getImageName_def getImageTag_def cli_def legacy_web_opts_def
        substr_def run_defs sim_defs)

end
